theory Spec2Isabelle
  imports Complex_Main "HOL-Library.Sublist"
begin

section \<open>Python values, exceptions and strings\<close>

text \<open>
  The service of \<^verbatim>\<open>app/chatbot_service.py\<close> keeps two dictionaries (conversation turns
  and evaluation records per session) and delegates all text generation to an external
  model. A Python \<^verbatim>\<open>str\<close> is modelled by the list of its UTF-8 bytes, so the accented
  letters and pictographs of the source are written as their bytes. What
  \<^verbatim>\<open>json.loads\<close> can return is a \<open>pyval\<close>; a JSON number with a fraction or an
  exponent is not represented.
\<close>

datatype pyval =
    PNone
  | PBool bool
  | PInt int
  | PStr string
  | PList "pyval list"
  | PDict "(string \<times> pyval) list"

text \<open>
  Exceptions are values. \<open>ModelError m\<close> is whatever the external model raised, with
  \<open>m\<close> its \<^verbatim>\<open>str(e)\<close>; \<open>Exception m\<close> is the bare \<^verbatim>\<open>Exception(m)\<close> that
  \<^verbatim>\<open>generate_response\<close> raises itself.
\<close>

datatype error =
    ValueError string
  | KeyError string
  | TypeError
  | ZeroDivisionError
  | OverflowError
  | ModelError string
  | Exception string

text \<open>
  \<^verbatim>\<open>str.lower()\<close> on UTF-8 bytes: the ASCII capitals and the two-byte capitals
  U+00C0 .. U+00DE (without the multiplication sign U+00D7) move to their small letters,
  every other byte stays. Capitals of other scripts are not covered.
\<close>

definition lower_ascii :: "char \<Rightarrow> char" where
  "lower_ascii c =
     (let n = (of_char c :: nat) in if 65 \<le> n \<and> n \<le> 90 then char_of (n + 32) else c)"

fun lower :: "string \<Rightarrow> string" where
  "lower [] = []"
| "lower [c] = [lower_ascii c]"
| "lower (c # d # cs) =
     (let n = (of_char d :: nat)
      in if c = CHR 0xC3 \<and> 128 \<le> n \<and> n \<le> 158 \<and> n \<noteq> 151
         then c # char_of (n + 32) # lower cs
         else lower_ascii c # lower (d # cs))"

subsection \<open>Dictionary membership, subscription and addition\<close>

text \<open>
  \<^verbatim>\<open>critere in ev\<close>, \<^verbatim>\<open>ev[critere]\<close> and \<^verbatim>\<open>total_score + v\<close> for the values
  \<^verbatim>\<open>json.loads\<close> can produce. Membership in a dictionary tests the keys, in a list the
  elements, in a string the substrings; numbers, booleans and \<^verbatim>\<open>None\<close> are not
  containers. Only a dictionary can be subscripted by a string. An \<^verbatim>\<open>int\<close> accepts an
  \<^verbatim>\<open>int\<close> or a \<^verbatim>\<open>bool\<close> as summand.
\<close>

fun py_contains :: "pyval \<Rightarrow> string \<Rightarrow> error + bool" where
  "py_contains (PDict kvs) k = Inr (map_of kvs k \<noteq> None)"
| "py_contains (PList xs) k = Inr (PStr k \<in> set xs)"
| "py_contains (PStr s) k = Inr (sublist k s)"
| "py_contains PNone k = Inl TypeError"
| "py_contains (PBool b) k = Inl TypeError"
| "py_contains (PInt n) k = Inl TypeError"

fun py_getitem :: "pyval \<Rightarrow> string \<Rightarrow> error + pyval" where
  "py_getitem (PDict kvs) k = (case map_of kvs k of None \<Rightarrow> Inl (KeyError k) | Some v \<Rightarrow> Inr v)"
| "py_getitem (PList xs) k = Inl TypeError"
| "py_getitem (PStr s) k = Inl TypeError"
| "py_getitem PNone k = Inl TypeError"
| "py_getitem (PBool b) k = Inl TypeError"
| "py_getitem (PInt n) k = Inl TypeError"

fun py_add :: "int \<Rightarrow> pyval \<Rightarrow> error + int" where
  "py_add t (PInt n) = Inr (t + n)"
| "py_add t (PBool b) = Inr (t + (if b then 1 else 0))"
| "py_add t PNone = Inl TypeError"
| "py_add t (PStr s) = Inl TypeError"
| "py_add t (PList xs) = Inl TypeError"
| "py_add t (PDict kvs) = Inl TypeError"

subsection \<open>Floating point\<close>

text \<open>
  A Python \<^verbatim>\<open>float\<close> is an IEEE binary64 number, carried here by its exact value,
  a rational. \<open>binary64 x\<close> is the binary64 number nearest to \<open>x\<close> (ties to the even
  mantissa, 53 bits, gradual underflow below \<open>2 powi (- 1022)\<close>). True division of two
  \<^verbatim>\<open>int\<close>s is correctly rounded and raises when the divisor is zero or the rounded
  quotient leaves the binary64 range. \<^verbatim>\<open>round(x, 2)\<close> rounds the exact value of \<open>x\<close>
  to hundredths, ties to even, and returns the binary64 number nearest to that decimal,
  whose \<^verbatim>\<open>str\<close> prints the decimal again; \<open>py_round2\<close> keeps the decimal.
  Infinities, the sign of zero and the exponent notation of \<^verbatim>\<open>str\<close> (magnitudes from
  \<open>10 ^ 16\<close>) are not represented: the arithmetic is that of Python for a total that is
  not negative and a score below \<open>10 ^ 13\<close>, in particular for criterion values between
  0 and 20.
\<close>

definition round_half_even :: "rat \<Rightarrow> int" where
  "round_half_even x =
     (let f = \<lfloor>x\<rfloor>; d = x - of_int f
      in if d < 1 / 2 then f else if 1 / 2 < d then f + 1 else if even f then f else f + 1)"

function bit_length :: "int \<Rightarrow> int" where
  "bit_length n = (if n \<le> 0 then 0 else 1 + bit_length (n div 2))"
  by pat_completeness auto
termination
  by (relation "measure nat") auto

definition binary64 :: "rat \<Rightarrow> rat" where
  "binary64 x =
     (if x = 0 then 0
      else let a = \<bar>x\<bar>;
               (p, q) = quotient_of a;
               d = bit_length p - bit_length q;
               e = max (if 2 powi d \<le> a then d else d - 1) (- 1022);
               m = round_half_even (a * 2 powi (52 - e))
           in sgn x * of_int m * 2 powi (e - 52))"

definition py_truediv :: "int \<Rightarrow> int \<Rightarrow> error + rat" where
  "py_truediv a b =
     (if b = 0 then Inl ZeroDivisionError
      else if 2 ^ 1024 - 2 ^ 970 \<le> \<bar>of_int a / of_int b :: rat\<bar> then Inl OverflowError
      else Inr (binary64 (of_int a / of_int b)))"

definition py_mul :: "rat \<Rightarrow> int \<Rightarrow> rat" where
  "py_mul x n = binary64 (x * of_int n)"

definition py_round2 :: "rat \<Rightarrow> rat" where
  "py_round2 x = of_int (round_half_even (x * 100)) / 100"

fun digits :: "nat \<Rightarrow> string" where
  "digits n =
     (if n < 10 then [''0123456789'' ! n]
      else digits (n div 10) @ [''0123456789'' ! (n mod 10)])"

definition py_str_float :: "rat \<Rightarrow> string" where
  "py_str_float x =
     (let k = nat \<lfloor>\<bar>x\<bar> * 100\<rfloor>
      in (if x < 0 then ''-'' else [])
         @ digits (k div 100) @ ''.''
         @ (if k mod 10 = 0 then digits (k mod 100 div 10) else digits (k mod 100 div 10) @ digits (k mod 10)))"

section \<open>The service\<close>

record turn =
  role :: string
  content :: string

text \<open>
  The attributes of \<^verbatim>\<open>ChatbotService\<close>: the two dictionaries and the system prompt.
  The client \<^verbatim>\<open>self.model\<close> is in the \<open>env\<close> below.
\<close>

record service =
  sessions :: "string \<rightharpoonup> turn list"
  evaluations :: "string \<rightharpoonup> pyval list"
  system_prompt :: string

text \<open>The dictionary \<^verbatim>\<open>{"text": ..., "session_id": ...}\<close> that a call returns.\<close>

record response =
  resp_text :: string
  resp_session_id :: string

text \<open>
  What one invocation takes from outside the repository:
  \<^item> \<open>generate_content prompt\<close> is \<^verbatim>\<open>self.model.generate_content(prompt).text\<close>:
    \<open>Inr\<close> the text, or \<open>Inl m\<close> when the call or the access to the text raises an
    exception \<^verbatim>\<open>e\<close> with \<^verbatim>\<open>str(e) = m\<close>;
  \<^item> \<open>json_loads s\<close> is \<^verbatim>\<open>json.loads(s)\<close>, \<open>None\<close> when it raises;
  \<^item> \<open>uuid4\<close> is the string \<^verbatim>\<open>str(uuid.uuid4())\<close> would give.
\<close>

record env =
  generate_content :: "string \<Rightarrow> string + string"
  json_loads :: "string \<Rightarrow> pyval option"
  uuid4 :: string

definition SYSTEM_PROMPT :: string where
  "SYSTEM_PROMPT =
     ''\<newline>''
   @ ''Tu es DebateMaster, un expert en argumentation et en d'' @ [CHR 0xC3, CHR 0xA9] @ ''bats.\<newline>''
   @ ''\<newline>''
   @ ''--------------------------------------------------------\<newline>''
   @ ''MODE 1 = '' @ [CHR 0x22] @ ''train'' @ [CHR 0x22] @ ''\<newline>''
   @ ''Objectif : entra'' @ [CHR 0xC3, CHR 0xAE] @ ''ner l'' @ [CHR 0xE2, CHR 0x80, CHR 0x99] @ ''utilisateur '' @ [CHR 0xC3, CHR 0xA0] @ '' d'' @ [CHR 0xC3, CHR 0xA9] @ ''battre.\<newline>''
   @ ''- R'' @ [CHR 0xC3, CHR 0xA9] @ ''ponds comme un expert du d'' @ [CHR 0xC3, CHR 0xA9] @ ''bat\<newline>''
   @ ''- Propose des arguments logiques\<newline>''
   @ ''- Contredis ou soutiens selon la discussion\<newline>''
   @ ''- Donne des conseils si l'' @ [CHR 0xE2, CHR 0x80, CHR 0x99] @ ''utilisateur fait une erreur\<newline>''
   @ ''- Ne donne JAMAIS de score dans ce mode\<newline>''
   @ ''\<newline>''
   @ ''--------------------------------------------------------\<newline>''
   @ ''MODE 2 = '' @ [CHR 0x22] @ ''score'' @ [CHR 0x22] @ ''\<newline>''
   @ ''Objectif : '' @ [CHR 0xC3, CHR 0xA9] @ ''valuer la qualit'' @ [CHR 0xC3, CHR 0xA9] @ '' argumentative de l'' @ [CHR 0xE2, CHR 0x80, CHR 0x99] @ ''utilisateur.\<newline>''
   @ [CHR 0xC3, CHR 0x80] @ '' chaque message utilisateur :\<newline>''
   @ ''- Analyse l'' @ [CHR 0xE2, CHR 0x80, CHR 0x99] @ ''id'' @ [CHR 0xC3, CHR 0xA9] @ ''e principale\<newline>''
   @ ''- Analyse la coh'' @ [CHR 0xC3, CHR 0xA9] @ ''rence logique\<newline>''
   @ ''- Analyse l'' @ [CHR 0x27] @ ''utilisation de preuves\<newline>''
   @ ''- Analyse la force argumentative\<newline>''
   @ ''- Analyse la clart'' @ [CHR 0xC3, CHR 0xA9] @ '' du style\<newline>''
   @ ''- G'' @ [CHR 0xC3, CHR 0xA9] @ ''n'' @ [CHR 0xC3, CHR 0xA8] @ ''re une mini-'' @ [CHR 0xC3, CHR 0xA9] @ ''valuation (score 0'' @ [CHR 0xE2, CHR 0x80, CHR 0x93] @ ''20 pour chaque crit'' @ [CHR 0xC3, CHR 0xA8] @ ''re)\<newline>''
   @ ''Stocke tout cela mais NE R'' @ [CHR 0xC3, CHR 0x89] @ ''V'' @ [CHR 0xC3, CHR 0x88] @ ''LE PAS encore le score.\<newline>''
   @ ''\<newline>''
   @ ''Quand l'' @ [CHR 0xE2, CHR 0x80, CHR 0x99] @ ''utilisateur dit '' @ [CHR 0xE2, CHR 0x80, CHR 0x9C] @ ''fin du d'' @ [CHR 0xC3, CHR 0xA9] @ ''bat'' @ [CHR 0xE2, CHR 0x80, CHR 0x9D] @ '' :\<newline>''
   @ ''- Fournis un rapport complet :\<newline>''
   @ ''  * Score global /100\<newline>''
   @ ''  * Forces\<newline>''
   @ ''  * Faiblesses\<newline>''
   @ ''  * Conseils d'' @ [CHR 0xE2, CHR 0x80, CHR 0x99] @ ''am'' @ [CHR 0xC3, CHR 0xA9] @ ''lioration\<newline>''
   @ ''  * Exemple de meilleure r'' @ [CHR 0xC3, CHR 0xA9] @ ''ponse possible\<newline>''
   @ ''--------------------------------------------------------\<newline>''
   @ ''Tu adaptes ton comportement selon le mode.\<newline>''
   @ ''        ''"

text \<open>
  The constructor \<^verbatim>\<open>__init__\<close>: no key, no service; otherwise two empty dictionaries
  and the system prompt.
\<close>

definition init :: "string \<Rightarrow> error + service" where
  "init api_key =
     (if api_key = [] then Inl (ValueError ''API key manquante pour Gemini !'')
      else Inr \<lparr>sessions = Map.empty, evaluations = Map.empty, system_prompt = SYSTEM_PROMPT\<rparr>)"

subsection \<open>The session store\<close>

text \<open>\<^verbatim>\<open>d.get(key, default)\<close> on a dictionary.\<close>

definition dict_get :: "('k \<rightharpoonup> 'v) \<Rightarrow> 'k \<Rightarrow> 'v \<Rightarrow> 'v" where
  "dict_get d key dflt = (case d key of None \<Rightarrow> dflt | Some v \<Rightarrow> v)"

text \<open>
  An identifier unknown to \<^verbatim>\<open>self.sessions\<close> gets an empty list in both dictionaries
  (whatever \<^verbatim>\<open>self.evaluations\<close> held for it before).
\<close>

definition ensure_session :: "service \<Rightarrow> string \<Rightarrow> service" where
  "ensure_session svc sid =
     (if sessions svc sid = None
      then svc\<lparr>sessions := (sessions svc)(sid \<mapsto> []), evaluations := (evaluations svc)(sid \<mapsto> [])\<rparr>
      else svc)"

text \<open>
  \<^verbatim>\<open>self.sessions[session_id].append(turn)\<close>. Each of its three places in
  \<^verbatim>\<open>generate_response\<close> comes after the entry was created, so the \<^verbatim>\<open>KeyError\<close> of
  a missing entry cannot arise there; the definition appends to the empty list in that
  case.
\<close>

definition append_turn :: "service \<Rightarrow> string \<Rightarrow> turn \<Rightarrow> service" where
  "append_turn svc sid t = svc\<lparr>sessions := (sessions svc)(sid \<mapsto> dict_get (sessions svc) sid [] @ [t])\<rparr>"

text \<open>
  \<^verbatim>\<open>self.evaluations[session_id].append(analysis)\<close>, with the \<^verbatim>\<open>KeyError\<close> of a
  missing entry: \<^verbatim>\<open>generate_response\<close> creates the entry only together with the one of
  \<^verbatim>\<open>self.sessions\<close>.
\<close>

definition append_evaluation :: "service \<Rightarrow> string \<Rightarrow> pyval \<Rightarrow> error + service" where
  "append_evaluation svc sid analysis =
     (case evaluations svc sid of
        None \<Rightarrow> Inl (KeyError sid)
      | Some evals \<Rightarrow> Inr (svc\<lparr>evaluations := (evaluations svc)(sid \<mapsto> evals @ [analysis])\<rparr>))"

subsection \<open>Rendering the recent context\<close>

text \<open>
  \<^verbatim>\<open>_build_context\<close>: the slice \<^verbatim>\<open>[-10:]\<close> of the history (the whole history when it
  has fewer than ten turns; the subtraction on \<^typ>\<open>nat\<close> stops at zero), then the loop
  that extends \<^verbatim>\<open>context\<close> by one line per turn.
\<close>

definition build_context :: "service \<Rightarrow> string \<Rightarrow> string" where
  "build_context svc sid =
     (let h = dict_get (sessions svc) sid [];
          history = drop (length h - 10) h
      in foldl (\<lambda>context msg.
                  context @ (if role msg = ''user'' then ''User'' else ''Assistant'')
                          @ '': '' @ content msg @ ''\<newline>'')
               [] history)"

subsection \<open>Evaluating one argument\<close>

definition evaluation_prompt :: "string \<Rightarrow> string" where
  "evaluation_prompt message =
     ''\<newline>''
   @ ''Analyse ce message d'' @ [CHR 0x27] @ ''utilisateur pour un d'' @ [CHR 0xC3, CHR 0xA9] @ ''bat :\<newline>''
   @ ''\<newline>''
   @ ''Message : '' @ [CHR 0x22] @ message @ [CHR 0x22] @ ''\<newline>''
   @ ''\<newline>''
   @ ''Donne une analyse sous forme de JSON avec :\<newline>''
   @ ''- idee_principale (texte)\<newline>''
   @ ''- logique (score 0-20)\<newline>''
   @ ''- preuves (score 0-20)\<newline>''
   @ ''- force_argumentative (score 0-20)\<newline>''
   @ ''- structure (score 0-20)\<newline>''
   @ ''- clarte_style (score 0-20)\<newline>''"

text \<open>
  \<^verbatim>\<open>_evaluate_argument\<close>: the call to the model is outside the \<^verbatim>\<open>try\<close>, so its
  exception leaves the function; a text that \<^verbatim>\<open>json.loads\<close> rejects becomes the
  dictionary \<^verbatim>\<open>{"raw": text}\<close>.
\<close>

definition evaluate_argument :: "env \<Rightarrow> string \<Rightarrow> error + pyval" where
  "evaluate_argument env message =
     (case generate_content env (evaluation_prompt message) of
        Inl m \<Rightarrow> Inl (ModelError m)
      | Inr text \<Rightarrow>
          (case json_loads env text of
             Some v \<Rightarrow> Inr v
           | None \<Rightarrow> Inr (PDict [(''raw'', PStr text)])))"

subsection \<open>The final score\<close>

definition criteres :: "string list" where
  "criteres = [''logique'', ''preuves'', ''force_argumentative'', ''structure'', ''clarte_style'']"

text \<open>
  The two nested \<^verbatim>\<open>for\<close> loops of \<^verbatim>\<open>_generate_final_score\<close>, with the pair
  \<^verbatim>\<open>(total_score, count)\<close> as accumulator. A \<^verbatim>\<open>TypeError\<close> ends both loops.
\<close>

fun critere_loop :: "pyval \<Rightarrow> string list \<Rightarrow> int \<times> int \<Rightarrow> error + int \<times> int" where
  "critere_loop ev [] acc = Inr acc"
| "critere_loop ev (critere # rest) (total_score, count) =
     (case py_contains ev critere of
        Inl e \<Rightarrow> Inl e
      | Inr False \<Rightarrow> critere_loop ev rest (total_score, count)
      | Inr True \<Rightarrow>
          (case py_getitem ev critere of
             Inl e \<Rightarrow> Inl e
           | Inr v \<Rightarrow>
               (case py_add total_score v of
                  Inl e \<Rightarrow> Inl e
                | Inr t \<Rightarrow> critere_loop ev rest (t, count + 1))))"

fun evaluation_loop :: "pyval list \<Rightarrow> int \<times> int \<Rightarrow> error + int \<times> int" where
  "evaluation_loop [] acc = Inr acc"
| "evaluation_loop (ev # rest) acc =
     (case critere_loop ev criteres acc of
        Inl e \<Rightarrow> Inl e
      | Inr acc' \<Rightarrow> evaluation_loop rest acc')"

definition NO_ARGUMENT :: string where
  "NO_ARGUMENT = ''Aucun argument '' @ [CHR 0xC3, CHR 0xA0] @ '' '' @ [CHR 0xC3, CHR 0xA9] @ ''valuer.''"

definition NO_SCORE :: string where
  "NO_SCORE = ''Impossible de calculer le score.''"

definition report :: "rat \<Rightarrow> string" where
  "report final_score =
     ''\<newline>''
   @ [CHR 0xF0, CHR 0x9F, CHR 0x8E, CHR 0xAF] @ '' **Score final du d'' @ [CHR 0xC3, CHR 0xA9] @ ''bat : ''
   @ py_str_float final_score
   @ ''/100**\<newline>''
   @ ''\<newline>''
   @ [CHR 0xE2, CHR 0x9C, CHR 0x85] @ '' **Points forts**\<newline>''
   @ ''- Analyse bas'' @ [CHR 0xC3, CHR 0xA9] @ ''e sur les arguments fournis\<newline>''
   @ ''\<newline>''
   @ [CHR 0xE2, CHR 0x9D, CHR 0x8C] @ '' **Points '' @ [CHR 0xC3, CHR 0xA0] @ '' am'' @ [CHR 0xC3, CHR 0xA9] @ ''liorer**\<newline>''
   @ ''- Coh'' @ [CHR 0xC3, CHR 0xA9] @ ''rence\<newline>''
   @ ''- Structure\<newline>''
   @ ''- Preuves\<newline>''
   @ ''\<newline>''
   @ [CHR 0xF0, CHR 0x9F, CHR 0x93, CHR 0x98] @ '' **Conseils**\<newline>''
   @ ''- Utilise des exemples concrets\<newline>''
   @ ''- Structure tes arguments (id'' @ [CHR 0xC3, CHR 0xA9] @ ''e '' @ [CHR 0xE2, CHR 0x86, CHR 0x92] @ '' justification '' @ [CHR 0xE2, CHR 0x86, CHR 0x92] @ '' preuve)\<newline>''
   @ ''- Am'' @ [CHR 0xC3, CHR 0xA9] @ ''liore la clart'' @ [CHR 0xC3, CHR 0xA9] @ '' et la logique interne\<newline>''"

text \<open>
  \<^verbatim>\<open>_generate_final_score\<close> reads the evaluation list of the session (the empty list
  when the session is unknown) and returns a string; it has no access to write.
\<close>

definition generate_final_score :: "service \<Rightarrow> string \<Rightarrow> error + string" where
  "generate_final_score svc sid =
     (let evals = dict_get (evaluations svc) sid []
      in if evals = [] then Inr NO_ARGUMENT
         else (case evaluation_loop evals (0, 0) of
                 Inl e \<Rightarrow> Inl e
               | Inr (total_score, count) \<Rightarrow>
                   if count = 0 then Inr NO_SCORE
                   else (case py_truediv total_score (count * 20) of
                           Inl e \<Rightarrow> Inl e
                         | Inr q \<Rightarrow> Inr (report (py_round2 (py_mul q 100))))))"

subsection \<open>Answering a message\<close>

definition TERMINAL :: "string list" where
  "TERMINAL = [''fin du d'' @ [CHR 0xC3, CHR 0xA9] @ ''bat'', ''fin'', ''score'']"

definition full_prompt :: "service \<Rightarrow> string \<Rightarrow> string \<Rightarrow> string \<Rightarrow> string" where
  "full_prompt svc mode context message =
     system_prompt svc @ ''\<newline>\<newline>''
   @ ''MODE ACTUEL : '' @ mode @ ''\<newline>\<newline>''
   @ context @ ''\<newline>''
   @ ''Utilisateur : '' @ message"

definition GENERATION_ERROR :: string where
  "GENERATION_ERROR = ''Erreur g'' @ [CHR 0xC3, CHR 0xA9] @ ''n'' @ [CHR 0xC3, CHR 0xA9] @ ''ration IA : ''"

text \<open>Lines 79 and 80: an absent or empty \<^verbatim>\<open>session_id\<close> is replaced by a new identifier.\<close>

definition resolve_session_id :: "env \<Rightarrow> string option \<Rightarrow> string" where
  "resolve_session_id env session_id =
     (case session_id of None \<Rightarrow> uuid4 env | Some s \<Rightarrow> if s = [] then uuid4 env else s)"

text \<open>Lines 82 to 90: the session is created when unknown, then the user turn is appended.\<close>

definition record_user_message :: "service \<Rightarrow> string \<Rightarrow> string \<Rightarrow> service" where
  "record_user_message svc sid message =
     append_turn (ensure_session svc sid) sid \<lparr>role = ''user'', content = message\<rparr>"

text \<open>
  \<^verbatim>\<open>generate_response\<close> returns its result, or the exception that leaves it, together
  with the service as the call leaves it. After the user turn, in source order:
  \<^item> in mode \<^verbatim>\<open>"score"\<close>, a message that is not a terminal phrase is evaluated and the
    record appended; both happen before the \<^verbatim>\<open>try\<close>, so their exceptions leave the
    function as they are;
  \<^item> in mode \<^verbatim>\<open>"score"\<close>, a terminal phrase returns the final report, also before the
    \<^verbatim>\<open>try\<close>;
  \<^item> otherwise the model is asked inside the \<^verbatim>\<open>try\<close>, whose handler wraps what the
    call raises.
\<close>

definition generate_response ::
  "env \<Rightarrow> service \<Rightarrow> string \<Rightarrow> string \<Rightarrow> string option \<Rightarrow> (error + response) \<times> service" where
  "generate_response env svc message mode session_id =
     (let sid = resolve_session_id env session_id;
          svc2 = record_user_message svc sid message;
          terminal = (lower message \<in> set TERMINAL)
      in case (if mode = ''score'' \<and> \<not> terminal
               then (case evaluate_argument env message of
                       Inl e \<Rightarrow> Inl e
                     | Inr analysis \<Rightarrow> append_evaluation svc2 sid analysis)
               else Inr svc2) of
           Inl e \<Rightarrow> (Inl e, svc2)
         | Inr svc3 \<Rightarrow>
             if mode = ''score'' \<and> terminal
             then (case generate_final_score svc3 sid of
                     Inl e \<Rightarrow> (Inl e, svc3)
                   | Inr final_report \<Rightarrow>
                       (Inr \<lparr>resp_text = final_report, resp_session_id = sid\<rparr>,
                        append_turn svc3 sid \<lparr>role = ''assistant'', content = final_report\<rparr>))
             else (case generate_content env
                          (full_prompt svc3 mode (build_context svc3 sid) message) of
                     Inl m \<Rightarrow> (Inl (Exception (GENERATION_ERROR @ m)), svc3)
                   | Inr response_text \<Rightarrow>
                       (Inr \<lparr>resp_text = response_text, resp_session_id = sid\<rparr>,
                        append_turn svc3 sid \<lparr>role = ''assistant'', content = response_text\<rparr>)))"

subsection \<open>Clearing a session\<close>

text \<open>\<^verbatim>\<open>clear_session\<close>: \<^verbatim>\<open>dict.pop(key, None)\<close> on both dictionaries.\<close>

definition clear_session :: "service \<Rightarrow> string \<Rightarrow> service" where
  "clear_session svc sid =
     svc\<lparr>sessions := (sessions svc)(sid := None), evaluations := (evaluations svc)(sid := None)\<rparr>"

section \<open>What the specification says\<close>

text \<open>
  The evaluation record of the specification: a mapping whose criteria, where present,
  are integers between 0 and 20. The fallback record \<^verbatim>\<open>{"raw": text}\<close> is one of them,
  with no criterion present.
\<close>

fun criterion_ok :: "pyval \<Rightarrow> string \<Rightarrow> bool" where
  "criterion_ok (PDict kvs) c =
     (case map_of kvs c of
        None \<Rightarrow> True
      | Some (PInt n) \<Rightarrow> 0 \<le> n \<and> n \<le> 20
      | Some _ \<Rightarrow> False)"
| "criterion_ok _ c = False"

definition rubric_record :: "pyval \<Rightarrow> bool" where
  "rubric_record ev = list_all (criterion_ok ev) criteres"

text \<open>
  The specification's aggregation: the values present under the criteria keys, record by
  record and criterion by criterion; their sum; the number of contributing pairs; and
  the expression \<^verbatim>\<open>round((sum / (count * 20)) * 100, 2)\<close>.
\<close>

fun criterion_value :: "pyval \<Rightarrow> string \<Rightarrow> int option" where
  "criterion_value (PDict kvs) c = (case map_of kvs c of Some (PInt n) \<Rightarrow> Some n | _ \<Rightarrow> None)"
| "criterion_value _ c = None"

definition contributions :: "pyval list \<Rightarrow> int list" where
  "contributions evals = concat (map (\<lambda>ev. List.map_filter (criterion_value ev) criteres) evals)"

definition spec_sum :: "pyval list \<Rightarrow> int" where
  "spec_sum evals = sum_list (contributions evals)"

definition spec_count :: "pyval list \<Rightarrow> int" where
  "spec_count evals = int (length (contributions evals))"

definition spec_score :: "int \<Rightarrow> int \<Rightarrow> rat" where
  "spec_score s c = py_round2 (py_mul (binary64 (of_int s / of_int (c * 20))) 100)"

text \<open>A record in which no criterion is found, such as the fallback record.\<close>

definition non_contributing :: "pyval \<Rightarrow> bool" where
  "non_contributing ev = list_all (\<lambda>c. py_contains ev c = Inr False) criteres"

text \<open>The recent context of the specification: the last \<open>n\<close> turns, one line each.\<close>

definition last_turns :: "nat \<Rightarrow> 'a list \<Rightarrow> 'a list" where
  "last_turns n xs = rev (take n (rev xs))"

definition render_turn :: "turn \<Rightarrow> string" where
  "render_turn t =
     (if role t = ''user'' then ''User: '' else ''Assistant: '') @ content t @ ''\<newline>''"

text \<open>The wrapped error of the specification: the \<^verbatim>\<open>Exception\<close> of the handler.\<close>

fun is_generation_error :: "error + response \<Rightarrow> bool" where
  "is_generation_error (Inl (Exception m)) = True"
| "is_generation_error _ = False"

text \<open>
  Both dictionaries hold an entry for the identifier, or neither does. The constructor
  establishes it and the two operations keep it.
\<close>

definition co_exist :: "service \<Rightarrow> string \<Rightarrow> bool" where
  "co_exist svc sid = ((sessions svc sid = None) = (evaluations svc sid = None))"

text \<open>Two services that hold the same for one identifier and have the same system prompt.\<close>

definition same_session :: "string \<Rightarrow> service \<Rightarrow> service \<Rightarrow> bool" where
  "same_session sid a b =
     (sessions a sid = sessions b sid \<and> evaluations a sid = evaluations b sid
      \<and> system_prompt a = system_prompt b)"

section \<open>Concrete sessions\<close>

text \<open>
  The record of the specification's example and the fallback record for the text
  \<open>Bonjour\<close>.
\<close>

definition record10 :: pyval where
  "record10 = PDict [(''idee_principale'', PStr ''Le sport forme la jeunesse''),
                     (''logique'', PInt 10), (''preuves'', PInt 10),
                     (''force_argumentative'', PInt 10), (''structure'', PInt 10),
                     (''clarte_style'', PInt 10)]"

definition raw_record :: pyval where
  "raw_record = PDict [(''raw'', PStr ''Bonjour'')]"

text \<open>The service as the constructor leaves it.\<close>

definition new_service :: service where
  "new_service = \<lparr>sessions = Map.empty, evaluations = Map.empty, system_prompt = SYSTEM_PROMPT\<rparr>"

text \<open>A session with two evaluated arguments, and one whose only evaluation fell back.\<close>

definition scored_service :: service where
  "scored_service =
     \<lparr>sessions = [''s1'' \<mapsto> [\<lparr>role = ''user'', content = ''Le sport forme la jeunesse''\<rparr>,
                             \<lparr>role = ''assistant'', content = ''Pourquoi ?''\<rparr>]],
      evaluations = [''s1'' \<mapsto> [record10, record10]],
      system_prompt = SYSTEM_PROMPT\<rparr>"

definition raw_service :: service where
  "raw_service =
     \<lparr>sessions = [''s1'' \<mapsto> [\<lparr>role = ''user'', content = ''Bof''\<rparr>,
                             \<lparr>role = ''assistant'', content = ''Pourquoi ?''\<rparr>]],
      evaluations = [''s1'' \<mapsto> [raw_record]],
      system_prompt = SYSTEM_PROMPT\<rparr>"

text \<open>
  Three external worlds. In the first the model answers every prompt with \<open>Bonjour\<close>,
  which is no JSON text; in the second it repeats the prompt; in the third every call
  fails. \<open>json_loads_fragment\<close> is \<^verbatim>\<open>json.loads\<close> on the texts that occur here.
\<close>

definition json_loads_fragment :: "string \<Rightarrow> pyval option" where
  "json_loads_fragment s = (if s = ''42'' then Some (PInt 42) else None)"

definition polite_env :: env where
  "polite_env = \<lparr>generate_content = (\<lambda>prompt. Inr ''Bonjour''),
                  json_loads = json_loads_fragment,
                  uuid4 = ''9f1c2d3e-0000-4000-8000-000000000001''\<rparr>"

definition echo_env :: env where
  "echo_env = \<lparr>generate_content = (\<lambda>prompt. Inr prompt),
                json_loads = json_loads_fragment,
                uuid4 = ''9f1c2d3e-0000-4000-8000-000000000001''\<rparr>"

definition failing_env :: env where
  "failing_env = \<lparr>generate_content = (\<lambda>prompt. Inl ''quota''),
                   json_loads = json_loads_fragment,
                   uuid4 = ''9f1c2d3e-0000-4000-8000-000000000001''\<rparr>"

text \<open>A session of eleven turns, one more than the context shows.\<close>

definition long_service :: service where
  "long_service =
     \<lparr>sessions = [''s1'' \<mapsto>
        [\<lparr>role = ''user'', content = ''a''\<rparr>, \<lparr>role = ''assistant'', content = ''b''\<rparr>,
         \<lparr>role = ''user'', content = ''c''\<rparr>, \<lparr>role = ''assistant'', content = ''d''\<rparr>,
         \<lparr>role = ''user'', content = ''e''\<rparr>, \<lparr>role = ''assistant'', content = ''f''\<rparr>,
         \<lparr>role = ''user'', content = ''g''\<rparr>, \<lparr>role = ''assistant'', content = ''h''\<rparr>,
         \<lparr>role = ''user'', content = ''i''\<rparr>, \<lparr>role = ''assistant'', content = ''j''\<rparr>,
         \<lparr>role = ''user'', content = ''k''\<rparr>]],
      evaluations = [''s1'' \<mapsto> []],
      system_prompt = SYSTEM_PROMPT\<rparr>"

section \<open>The aggregation loops\<close>

lemma critere_loop_rubric:
  "list_all (criterion_ok ev) cs \<Longrightarrow>
   critere_loop ev cs (t, n) =
     Inr (t + sum_list (List.map_filter (criterion_value ev) cs),
          n + int (length (List.map_filter (criterion_value ev) cs)))"
proof (induction cs arbitrary: t n)
  case Nil
  show ?case by simp
next
  case (Cons c cs)
  from Cons.prems obtain kvs where ev: "ev = PDict kvs"
    by (cases ev) auto
  show ?case
  proof (cases "map_of kvs c")
    case None
    with Cons ev show ?thesis by simp
  next
    case (Some v)
    with Cons.prems ev obtain k where v: "v = PInt k"
      by (cases v) auto
    from Cons.prems have "list_all (criterion_ok ev) cs" by simp
    from Cons.IH [OF this] Some v ev show ?thesis
      by simp
  qed
qed

lemma evaluation_loop_rubric:
  "\<forall>ev\<in>set evals. rubric_record ev \<Longrightarrow>
   evaluation_loop evals (t, n) = Inr (t + spec_sum evals, n + spec_count evals)"
proof (induction evals arbitrary: t n)
  case Nil
  show ?case by (simp add: spec_sum_def spec_count_def contributions_def)
next
  case (Cons ev evals)
  from Cons.prems have "list_all (criterion_ok ev) criteres"
    by (simp add: rubric_record_def)
  from critere_loop_rubric [OF this] Cons show ?case
    by (simp add: spec_sum_def spec_count_def contributions_def)
qed

lemma map_filter_rubric_bounds:
  "list_all (criterion_ok ev) cs \<Longrightarrow>
   \<forall>v\<in>set (List.map_filter (criterion_value ev) cs). 0 \<le> v \<and> v \<le> 20"
proof (induction cs)
  case Nil
  show ?case by simp
next
  case (Cons c cs)
  then show ?case
    by (cases ev) (auto split: option.splits pyval.splits)
qed

lemma contributions_bounds:
  "\<forall>ev\<in>set evals. rubric_record ev \<Longrightarrow> \<forall>v\<in>set (contributions evals). 0 \<le> v \<and> v \<le> 20"
  using map_filter_rubric_bounds by (fastforce simp: contributions_def rubric_record_def)

lemma sum_list_bounds:
  "\<forall>v\<in>set vs. 0 \<le> v \<and> v \<le> (20::int) \<Longrightarrow> 0 \<le> sum_list vs \<and> sum_list vs \<le> 20 * int (length vs)"
  by (induction vs) auto

lemma spec_sum_bounds:
  "\<forall>ev\<in>set evals. rubric_record ev \<Longrightarrow> 0 \<le> spec_sum evals \<and> spec_sum evals \<le> 20 * spec_count evals"
  unfolding spec_sum_def spec_count_def
  by (rule sum_list_bounds) (rule contributions_bounds)

lemma py_truediv_unit:
  assumes "0 \<le> s" and "s \<le> 20 * c" and "c \<noteq> 0"
  shows "py_truediv s (c * 20) = Inr (binary64 (of_int s / of_int (c * 20)))"
proof -
  from assms have c: "0 < c" by linarith
  have "(of_int s :: rat) \<le> of_int (c * 20)"
    using assms(2) by (metis mult.commute of_int_le_iff)
  with c have "(of_int s / of_int (c * 20) :: rat) \<le> 1"
    by (simp add: divide_le_eq)
  moreover from assms(1) c have "0 \<le> (of_int s / of_int (c * 20) :: rat)"
    by simp
  ultimately have "\<bar>of_int s / of_int (c * 20) :: rat\<bar> \<le> 1"
    by simp
  moreover have "(1::rat) < 2 ^ 1024 - 2 ^ 970"
    by simp
  ultimately have "\<not> 2 ^ 1024 - 2 ^ 970 \<le> \<bar>of_int s / of_int (c * 20) :: rat\<bar>"
    by linarith
  with c show ?thesis
    unfolding py_truediv_def by simp
qed

lemma rubric_final_score:
  assumes "\<forall>ev\<in>set evals. rubric_record ev"
    and "dict_get (evaluations svc) sid [] = evals"
  shows "generate_final_score svc sid =
           Inr (if evals = [] then NO_ARGUMENT
                else if spec_count evals = 0 then NO_SCORE
                else report (spec_score (spec_sum evals) (spec_count evals)))"
proof -
  have loop: "evaluation_loop evals (0, 0) = Inr (spec_sum evals, spec_count evals)"
    using evaluation_loop_rubric [OF assms(1), of 0 0] by simp
  show ?thesis
  proof (cases "evals = [] \<or> spec_count evals = 0")
    case True
    with loop assms(2) show ?thesis
      by (auto simp: generate_final_score_def)
  next
    case False
    from spec_sum_bounds [OF assms(1)] False
    have "py_truediv (spec_sum evals) (spec_count evals * 20)
            = Inr (binary64 (of_int (spec_sum evals) / of_int (spec_count evals * 20)))"
      by (intro py_truediv_unit) auto
    with False loop assms(2) show ?thesis
      by (simp add: generate_final_score_def spec_score_def)
  qed
qed

lemma critere_loop_absent:
  "list_all (\<lambda>c. py_contains ev c = Inr False) cs \<Longrightarrow> critere_loop ev cs acc = Inr acc"
  by (induction cs) (cases acc; simp)+

lemma evaluation_loop_skip:
  "non_contributing ev \<Longrightarrow> evaluation_loop (xs @ ev # ys) acc = evaluation_loop (xs @ ys) acc"
proof (induction xs arbitrary: acc)
  case Nil
  then show ?case by (simp add: non_contributing_def critere_loop_absent)
next
  case (Cons x xs)
  then show ?case by (simp split: sum.splits)
qed

lemma evaluation_loop_absent:
  "\<forall>ev\<in>set evals. non_contributing ev \<Longrightarrow> evaluation_loop evals acc = Inr acc"
  by (induction evals) (simp_all add: non_contributing_def critere_loop_absent)

lemma raw_non_contributing: "non_contributing (PDict [(''raw'', PStr text)])"
  by (simp add: non_contributing_def criteres_def)

lemma raw_rubric: "rubric_record (PDict [(''raw'', PStr text)])"
  by (simp add: rubric_record_def criteres_def)

lemma report_not_message: "report x \<noteq> NO_ARGUMENT \<and> report x \<noteq> NO_SCORE"
  by (simp add: report_def NO_ARGUMENT_def NO_SCORE_def)

lemma messages_differ: "NO_SCORE \<noteq> NO_ARGUMENT"
  by (simp add: NO_ARGUMENT_def NO_SCORE_def)

lemma spec_score_half: "spec_score 100 10 = 50"
  by code_simp


text \<open>
  Outside the rubric the loops can raise: a record that is no container, or a criterion
  whose value is no number, ends them with a \<^verbatim>\<open>TypeError\<close>.
\<close>

lemma ill_typed_record_raises:
  "evaluation_loop [PInt 42] acc = Inl TypeError"
  "evaluation_loop [PDict [(''logique'', PStr ''15/20'')]] acc = Inl TypeError"
  by (cases acc; simp add: criteres_def)+

section \<open>The context loop\<close>

lemma foldl_render:
  "foldl (\<lambda>context msg.
            context @ (if role msg = ''user'' then ''User'' else ''Assistant'')
                    @ '': '' @ content msg @ ''\<newline>'') acc ts
     = acc @ concat (map render_turn ts)"
  by (induction ts arbitrary: acc) (simp_all add: render_turn_def)

lemma last_turns_drop: "last_turns n xs = drop (length xs - n) xs"
  by (simp add: last_turns_def rev_take)

lemma append_turns_history:
  "dict_get (sessions (foldl (\<lambda>s t. append_turn s sid t) svc ts)) sid []
     = dict_get (sessions svc) sid [] @ ts"
  by (induction ts arbitrary: svc) (simp_all add: append_turn_def dict_get_def)

section \<open>One call, path by path\<close>

text \<open>What the store operations leave behind, and the terminal path of a call.\<close>

lemma dict_get_simps [simp]:
  "d key = None \<Longrightarrow> dict_get d key dflt = dflt"
  "d key = Some v \<Longrightarrow> dict_get d key dflt = v"
  "dict_get (d(key \<mapsto> v)) key dflt = v"
  by (simp_all add: dict_get_def)

lemma sessions_ensure_session:
  "sessions (ensure_session svc sid) sid = Some (dict_get (sessions svc) sid [])"
  by (cases "sessions svc sid") (simp_all add: ensure_session_def)

lemma evaluations_ensure_session:
  "evaluations (ensure_session svc sid)
     = (if sessions svc sid = None then (evaluations svc)(sid \<mapsto> []) else evaluations svc)"
  by (simp add: ensure_session_def)

lemma sessions_record_user_message:
  "sessions (record_user_message svc sid message)
     = (sessions (ensure_session svc sid))
         (sid \<mapsto> dict_get (sessions svc) sid [] @ [\<lparr>role = ''user'', content = message\<rparr>])"
  by (simp add: record_user_message_def append_turn_def sessions_ensure_session)

lemma evaluations_record_user_message:
  "evaluations (record_user_message svc sid message) = evaluations (ensure_session svc sid)"
  by (simp add: record_user_message_def append_turn_def)

lemma system_prompt_record_user_message:
  "system_prompt (record_user_message svc sid message) = system_prompt svc"
  by (simp add: record_user_message_def append_turn_def ensure_session_def)

lemma generate_final_score_reads:
  "evaluations svc sid = evaluations svc' sid \<Longrightarrow>
   generate_final_score svc sid = generate_final_score svc' sid"
  by (simp add: generate_final_score_def dict_get_def)

lemma build_context_reads:
  "sessions svc sid = sessions svc' sid \<Longrightarrow> build_context svc sid = build_context svc' sid"
  by (simp add: build_context_def dict_get_def)


lemma terminal_response:
  assumes "lower message \<in> set TERMINAL"
  shows "generate_response env svc message ''score'' session_id =
    (let sid = resolve_session_id env session_id;
         svc2 = record_user_message svc sid message
     in case generate_final_score svc2 sid of
          Inl e \<Rightarrow> (Inl e, svc2)
        | Inr final_report \<Rightarrow>
            (Inr \<lparr>resp_text = final_report, resp_session_id = sid\<rparr>,
             append_turn svc2 sid \<lparr>role = ''assistant'', content = final_report\<rparr>))"
  using assms by (simp add: generate_response_def Let_def)

lemma lower_fin: "lower ''Fin'' \<in> set TERMINAL"
  by code_simp

text \<open>The path of a mode other than \<^verbatim>\<open>"score"\<close>, and the path of an argument to score.\<close>

lemma train_like_response:
  assumes "mode \<noteq> ''score''"
  shows "generate_response env svc message mode session_id =
    (let sid = resolve_session_id env session_id;
         svc2 = record_user_message svc sid message
     in case generate_content env (full_prompt svc2 mode (build_context svc2 sid) message) of
          Inl m \<Rightarrow> (Inl (Exception (GENERATION_ERROR @ m)), svc2)
        | Inr response_text \<Rightarrow>
            (Inr \<lparr>resp_text = response_text, resp_session_id = sid\<rparr>,
             append_turn svc2 sid \<lparr>role = ''assistant'', content = response_text\<rparr>))"
  using assms by (simp add: generate_response_def Let_def)

lemma score_response:
  assumes "lower message \<notin> set TERMINAL"
  shows "generate_response env svc message ''score'' session_id =
    (let sid = resolve_session_id env session_id;
         svc2 = record_user_message svc sid message
     in case evaluate_argument env message of
          Inl e \<Rightarrow> (Inl e, svc2)
        | Inr analysis \<Rightarrow>
            (case append_evaluation svc2 sid analysis of
               Inl e \<Rightarrow> (Inl e, svc2)
             | Inr svc3 \<Rightarrow>
                 (case generate_content env
                         (full_prompt svc3 ''score'' (build_context svc3 sid) message) of
                    Inl m \<Rightarrow> (Inl (Exception (GENERATION_ERROR @ m)), svc3)
                  | Inr response_text \<Rightarrow>
                      (Inr \<lparr>resp_text = response_text, resp_session_id = sid\<rparr>,
                       append_turn svc3 sid \<lparr>role = ''assistant'', content = response_text\<rparr>))))"
  using assms by (simp add: generate_response_def Let_def split: sum.splits)

lemma full_prompt_reads:
  "system_prompt svc = system_prompt svc' \<Longrightarrow>
   full_prompt svc mode context message = full_prompt svc' mode context message"
  by (simp add: full_prompt_def)

lemma append_evaluation_present:
  assumes "evaluations svc sid = Some evals"
  shows "append_evaluation svc sid analysis
           = Inr (svc\<lparr>evaluations := (evaluations svc)(sid \<mapsto> evals @ [analysis])\<rparr>)"
  using assms by (simp add: append_evaluation_def)

lemma evaluations_after_user_message:
  assumes "sessions svc sid \<noteq> None \<longrightarrow> evaluations svc sid \<noteq> None"
  shows "evaluations (record_user_message svc sid message) sid
           = Some (dict_get (evaluations (ensure_session svc sid)) sid [])"
  using assms
  by (cases "sessions svc sid") (auto simp: evaluations_record_user_message evaluations_ensure_session)

lemma lower_bof: "lower ''Bof'' \<notin> set TERMINAL"
  by code_simp

text \<open>After a terminal phrase.\<close>

lemma ensure_session_known: "sessions svc sid \<noteq> None \<Longrightarrow> ensure_session svc sid = svc"
  by (auto simp: ensure_session_def)

lemma sessions_after_terminal:
  assumes "lower message \<in> set TERMINAL"
  shows "sessions (snd (generate_response env svc message ''score'' session_id))
           (resolve_session_id env session_id) \<noteq> None"
  by (simp add: terminal_response [OF assms] Let_def append_turn_def
        sessions_record_user_message split: sum.splits)

lemma evaluations_after_terminal:
  assumes "lower message \<in> set TERMINAL"
  shows "evaluations (snd (generate_response env svc message ''score'' session_id))
           = evaluations (ensure_session svc (resolve_session_id env session_id))"
  by (simp add: terminal_response [OF assms] Let_def append_turn_def
        evaluations_record_user_message split: sum.splits)

lemma fst_terminal:
  assumes "lower message \<in> set TERMINAL"
  shows "fst (generate_response env svc message ''score'' session_id)
           = map_sum id (\<lambda>final_report. \<lparr>resp_text = final_report,
                                          resp_session_id = resolve_session_id env session_id\<rparr>)
               (generate_final_score (ensure_session svc (resolve_session_id env session_id))
                  (resolve_session_id env session_id))"
proof -
  have "generate_final_score
          (record_user_message svc (resolve_session_id env session_id) message)
          (resolve_session_id env session_id)
        = generate_final_score (ensure_session svc (resolve_session_id env session_id))
            (resolve_session_id env session_id)"
    by (rule generate_final_score_reads) (simp add: evaluations_record_user_message)
  then show ?thesis
    by (simp add: terminal_response [OF assms] Let_def split: sum.splits)
qed

lemma lower_score: "lower ''SCORE'' \<in> set TERMINAL"
  by code_simp

text \<open>A failing evaluation call.\<close>

lemma evaluate_argument_fails:
  "generate_content env (evaluation_prompt message) = Inl m \<Longrightarrow>
   evaluate_argument env message = Inl (ModelError m)"
  by (simp add: evaluate_argument_def)

text \<open>
  A call reads and writes only the entries of its own session identifier: on two services
  that hold the same for it, the call has the same result and leaves them holding the
  same for it.
\<close>

lemma same_session_record_user_message:
  "same_session sid a b \<Longrightarrow>
   same_session sid (record_user_message a sid message) (record_user_message b sid message)"
  by (auto simp: same_session_def sessions_record_user_message evaluations_record_user_message
        evaluations_ensure_session system_prompt_record_user_message dict_get_def)

lemma same_session_append_turn:
  "same_session sid a b \<Longrightarrow> same_session sid (append_turn a sid t) (append_turn b sid t)"
  by (simp add: same_session_def append_turn_def dict_get_def)

lemma same_session_append_evaluation:
  "same_session sid a b \<Longrightarrow>
   rel_sum (=) (same_session sid) (append_evaluation a sid x) (append_evaluation b sid x)"
  by (cases "evaluations b sid") (simp_all add: same_session_def append_evaluation_def)

lemma same_session_reads:
  assumes "same_session sid a b"
  shows "generate_final_score a sid = generate_final_score b sid"
    and "full_prompt a mode (build_context a sid) message
           = full_prompt b mode (build_context b sid) message"
  using assms generate_final_score_reads [of a sid b] build_context_reads [of a sid b]
        full_prompt_reads [of a b]
  by (simp_all add: same_session_def)

lemma same_session_generate_response:
  assumes "same_session (resolve_session_id env session_id) a b"
  shows "fst (generate_response env a message mode session_id)
           = fst (generate_response env b message mode session_id)
       \<and> same_session (resolve_session_id env session_id)
            (snd (generate_response env a message mode session_id))
            (snd (generate_response env b message mode session_id))"
proof -
  define sid where "sid = resolve_session_id env session_id"
  define a2 where "a2 = record_user_message a sid message"
  define b2 where "b2 = record_user_message b sid message"
  have s2: "same_session sid a2 b2"
    unfolding a2_def b2_def using assms
    by (intro same_session_record_user_message) (simp add: sid_def)
  show ?thesis
  proof (cases "mode = ''score'' \<and> lower message \<notin> set TERMINAL")
    case False
    note nf = this
    show ?thesis
    proof (cases "mode = ''score''")
      case True
      with nf have t: "lower message \<in> set TERMINAL" by simp
      from same_session_reads(1) [OF s2] same_session_append_turn [OF s2] s2 True
      show ?thesis
        by (simp add: terminal_response [OF t] Let_def sid_def [symmetric] a2_def [symmetric]
              b2_def [symmetric] split: sum.splits)
    next
      case False
      from same_session_reads(2) [OF s2] same_session_append_turn [OF s2] s2
      show ?thesis
        by (simp add: train_like_response [OF False] Let_def sid_def [symmetric]
              a2_def [symmetric] b2_def [symmetric] split: sum.splits)
    qed
  next
    case True
    then have m: "mode = ''score''" and nt: "lower message \<notin> set TERMINAL"
      by simp_all
    show ?thesis
    proof (cases "evaluate_argument env message")
      case (Inl e)
      with s2 show ?thesis
        by (simp add: m score_response [OF nt] Let_def sid_def [symmetric] a2_def [symmetric]
              b2_def [symmetric])
    next
      case (Inr analysis)
      from same_session_append_evaluation [OF s2, of analysis]
      consider (raise) e where "append_evaluation a2 sid analysis = Inl e"
          "append_evaluation b2 sid analysis = Inl e"
        | (ok) a3 b3 where "append_evaluation a2 sid analysis = Inr a3"
          "append_evaluation b2 sid analysis = Inr b3" "same_session sid a3 b3"
        by (auto elim: rel_sum.cases)
      then show ?thesis
      proof cases
        case raise
        with s2 Inr show ?thesis
          by (simp add: m score_response [OF nt] Let_def sid_def [symmetric] a2_def [symmetric]
                b2_def [symmetric])
      next
        case ok
        from same_session_reads(2) [OF ok(3)] same_session_append_turn [OF ok(3)] ok Inr
        show ?thesis
          by (simp add: m score_response [OF nt] Let_def sid_def [symmetric] a2_def [symmetric]
                b2_def [symmetric] split: sum.splits)
      qed
    qed
  qed
qed

lemma same_session_clear:
  "sessions unseen sid = None \<Longrightarrow> evaluations unseen sid = None \<Longrightarrow>
   system_prompt unseen = system_prompt svc \<Longrightarrow>
   same_session sid (clear_session svc sid) unseen"
  by (simp add: same_session_def clear_session_def)

lemma clear_session_unknown:
  "sessions svc sid = None \<Longrightarrow> evaluations svc sid = None \<Longrightarrow> clear_session svc sid = svc"
  by (simp add: clear_session_def fun_upd_idem)

section \<open>The two dictionaries go together\<close>

lemma init_new_service: "api_key \<noteq> [] \<Longrightarrow> init api_key = Inr new_service"
  by (simp add: init_def new_service_def)

lemma co_exist_new_service: "co_exist new_service sid"
  by (simp add: co_exist_def new_service_def)

lemma co_exist_clear_session: "co_exist svc s \<Longrightarrow> co_exist (clear_session svc sid) s"
  by (simp add: co_exist_def clear_session_def)

lemma co_exist_record_user_message:
  "co_exist svc s \<Longrightarrow> co_exist (record_user_message svc sid message) s"
  by (auto simp: co_exist_def sessions_record_user_message evaluations_record_user_message
        evaluations_ensure_session ensure_session_def)

lemma co_exist_append_turn:
  "co_exist svc s \<Longrightarrow> sessions svc sid \<noteq> None \<Longrightarrow> co_exist (append_turn svc sid t) s"
  by (auto simp: co_exist_def append_turn_def)

lemma co_exist_append_evaluation:
  "co_exist svc s \<Longrightarrow> append_evaluation svc sid x = Inr svc' \<Longrightarrow>
   co_exist svc' s \<and> sessions svc' = sessions svc"
  by (auto simp: co_exist_def append_evaluation_def split: option.splits if_splits)

lemma co_exist_generate_response:
  assumes "co_exist svc s"
  shows "co_exist (snd (generate_response env svc message mode session_id)) s"
proof -
  define sid where "sid = resolve_session_id env session_id"
  define svc2 where "svc2 = record_user_message svc sid message"
  have c2: "co_exist svc2 s" and k2: "sessions svc2 sid \<noteq> None"
    using assms by (simp_all add: svc2_def co_exist_record_user_message sessions_record_user_message)
  have t: "co_exist (append_turn svc2 sid t) s" for t
    using c2 k2 by (rule co_exist_append_turn)
  have e: "co_exist (append_turn svc3 sid t) s \<and> co_exist svc3 s"
    if "append_evaluation svc2 sid x = Inr svc3" for svc3 x t
    using co_exist_append_evaluation [OF c2 that] k2 by (simp add: co_exist_append_turn)
  show ?thesis
    unfolding generate_response_def Let_def sid_def [symmetric] svc2_def [symmetric]
    using c2 t e by (auto split: sum.splits)
qed

section \<open>Terminal phrases in score mode\<close>



section \<open>The final score\<close>



section \<open>Failures of the external model\<close>

text \<open>
  Claim C3 promises the wrapped error for every failing external call. In mode
  \<^verbatim>\<open>"score"\<close> the evaluation of the argument calls the external model before the
  \<^verbatim>\<open>try\<close>: when that call fails, its exception leaves \<^verbatim>\<open>generate_response\<close> as it
  is, not wrapped.
\<close>

theorem evaluation_failure_counterexample:
  "fst (generate_response failing_env new_service ''Bof'' ''score'' (Some ''s1''))
     = Inl (ModelError ''quota'')
   \<and> \<not> is_generation_error (fst (generate_response failing_env new_service ''Bof'' ''score'' (Some ''s1'')))"
  by (simp add: score_response [OF lower_bof] Let_def evaluate_argument_def failing_env_def)

text \<open>
  Claim C3, as the code has it. The user turn is recorded before any external call. When
  the call that generates the answer fails, the invocation fails with the single wrapped
  exception whose message is \<open>GENERATION_ERROR\<close> followed by the cause, and the service
  keeps the user turn (and, in mode \<^verbatim>\<open>"score"\<close>, the record just appended). When the
  call that evaluates the argument fails, the invocation fails with the exception of the
  model itself, and the service keeps the user turn.
\<close>

theorem external_failure_keeps_user_turn:
  assumes "sid = resolve_session_id env session_id"
    and "svc2 = record_user_message svc sid message"
  shows "sessions svc2 sid = Some (dict_get (sessions svc) sid [] @ [\<lparr>role = ''user'', content = message\<rparr>])
       \<and> (mode \<noteq> ''score''
            \<and> generate_content env (full_prompt svc mode (build_context svc2 sid) message) = Inl m
          \<longrightarrow> generate_response env svc message mode session_id
                = (Inl (Exception (GENERATION_ERROR @ m)), svc2))
       \<and> (mode = ''score'' \<and> lower message \<notin> set TERMINAL
            \<and> evaluate_argument env message = Inr analysis
            \<and> (sessions svc sid \<noteq> None \<longrightarrow> evaluations svc sid \<noteq> None)
            \<and> generate_content env (full_prompt svc mode (build_context svc2 sid) message) = Inl m
          \<longrightarrow> generate_response env svc message mode session_id
                = (Inl (Exception (GENERATION_ERROR @ m)),
                   svc2\<lparr>evaluations := (evaluations svc2)
                          (sid \<mapsto> dict_get (evaluations svc2) sid [] @ [analysis])\<rparr>))
       \<and> (mode = ''score'' \<and> lower message \<notin> set TERMINAL
            \<and> generate_content env (evaluation_prompt message) = Inl m
          \<longrightarrow> generate_response env svc message mode session_id = (Inl (ModelError m), svc2))"
proof (intro conjI impI)
  show "sessions svc2 sid
          = Some (dict_get (sessions svc) sid [] @ [\<lparr>role = ''user'', content = message\<rparr>])"
    by (simp add: assms(2) sessions_record_user_message)
next
  assume a: "mode \<noteq> ''score''
     \<and> generate_content env (full_prompt svc mode (build_context svc2 sid) message) = Inl m"
  have "full_prompt svc2 mode (build_context svc2 sid) message
          = full_prompt svc mode (build_context svc2 sid) message"
    by (rule full_prompt_reads) (simp add: assms(2) system_prompt_record_user_message)
  with a assms show "generate_response env svc message mode session_id
                = (Inl (Exception (GENERATION_ERROR @ m)), svc2)"
    by (simp add: train_like_response Let_def)
next
  assume a: "mode = ''score'' \<and> lower message \<notin> set TERMINAL
            \<and> evaluate_argument env message = Inr analysis
            \<and> (sessions svc sid \<noteq> None \<longrightarrow> evaluations svc sid \<noteq> None)
            \<and> generate_content env (full_prompt svc mode (build_context svc2 sid) message) = Inl m"
  define svc3 where "svc3 = svc2\<lparr>evaluations := (evaluations svc2)
                          (sid \<mapsto> dict_get (evaluations svc2) sid [] @ [analysis])\<rparr>"
  from a have "evaluations svc2 sid = Some (dict_get (evaluations (ensure_session svc sid)) sid [])"
    unfolding assms(2) by (intro evaluations_after_user_message) simp
  then have e: "append_evaluation svc2 sid analysis = Inr svc3"
    by (simp add: append_evaluation_def svc3_def)
  have p: "full_prompt svc3 mode (build_context svc3 sid) message
             = full_prompt svc mode (build_context svc2 sid) message"
    by (simp add: svc3_def assms(2) full_prompt_def build_context_def
          system_prompt_record_user_message)
  from a have nt: "lower message \<notin> set TERMINAL"
    and ev: "evaluate_argument env message = Inr analysis"
    and g: "generate_content env (full_prompt svc mode (build_context svc2 sid) message) = Inl m"
    and mo: "mode = ''score''"
    by auto
  have "generate_response env svc message ''score'' session_id
          = (case evaluate_argument env message of
               Inl e \<Rightarrow> (Inl e, svc2)
             | Inr analysis \<Rightarrow>
                (case append_evaluation svc2 sid analysis of
                   Inl e \<Rightarrow> (Inl e, svc2)
                 | Inr svc3 \<Rightarrow>
                     (case generate_content env
                             (full_prompt svc3 ''score'' (build_context svc3 sid) message) of
                        Inl m \<Rightarrow> (Inl (Exception (GENERATION_ERROR @ m)), svc3)
                      | Inr response_text \<Rightarrow>
                          (Inr \<lparr>resp_text = response_text, resp_session_id = sid\<rparr>,
                           append_turn svc3 sid \<lparr>role = ''assistant'', content = response_text\<rparr>))))"
    unfolding score_response [OF nt] Let_def assms(1) [symmetric] assms(2) [symmetric] ..
  also have "\<dots> = (Inl (Exception (GENERATION_ERROR @ m)), svc3)"
    using g [unfolded mo] by (simp add: ev e p [unfolded mo])
  finally show "generate_response env svc message mode session_id
                = (Inl (Exception (GENERATION_ERROR @ m)),
                   svc2\<lparr>evaluations := (evaluations svc2)
                          (sid \<mapsto> dict_get (evaluations svc2) sid [] @ [analysis])\<rparr>)"
    by (simp add: mo svc3_def)
next
  assume a: "mode = ''score'' \<and> lower message \<notin> set TERMINAL
            \<and> generate_content env (evaluation_prompt message) = Inl m"
  then have "evaluate_argument env message = Inl (ModelError m)"
    by (simp add: evaluate_argument_fails)
  with a assms show "generate_response env svc message mode session_id = (Inl (ModelError m), svc2)"
    by (simp add: score_response Let_def)
qed

theorem external_failure_keeps_user_turn_witness:
  "generate_response failing_env new_service ''Bof'' ''train'' (Some ''s1'')
     = (Inl (Exception (GENERATION_ERROR @ ''quota'')), record_user_message new_service ''s1'' ''Bof'')
   \<and> generate_response failing_env new_service ''Bof'' ''score'' (Some ''s1'')
     = (Inl (ModelError ''quota''), record_user_message new_service ''s1'' ''Bof'')
   \<and> sessions (record_user_message new_service ''s1'' ''Bof'') ''s1''
     = Some [\<lparr>role = ''user'', content = ''Bof''\<rparr>]"
proof -
  have i: "''s1'' = resolve_session_id failing_env (Some ''s1'')"
    by (simp add: resolve_session_id_def)
  have t: "''train'' \<noteq> ''score''"
    by simp
  have g: "generate_content failing_env p = Inl ''quota''" for p
    by (simp add: failing_env_def)
  have d: "dict_get (sessions new_service) ''s1'' [] = []"
    by (simp add: new_service_def)
  from external_failure_keeps_user_turn [OF i refl, of new_service "''Bof''" "''train''" "''quota''"]
       external_failure_keeps_user_turn [OF i refl, of new_service "''Bof''" "''score''" "''quota''"]
       t g d lower_bof
  show ?thesis
    by simp
qed

section \<open>Modes other than train and score\<close>

text \<open>
  Claim C4 promises the text and the store of mode \<^verbatim>\<open>"train"\<close>. The prompt sent out
  names the mode (\<open>MODE ACTUEL\<close>): an external model that answers by repeating its
  prompt returns one text for the mode \<open>duel\<close> and another for \<open>train\<close>.
\<close>

theorem unknown_mode_counterexample:
  "fst (generate_response echo_env new_service ''Bonjour'' ''duel'' (Some ''s1''))
     \<noteq> fst (generate_response echo_env new_service ''Bonjour'' ''train'' (Some ''s1''))"
  by (simp add: train_like_response Let_def echo_env_def full_prompt_def)

text \<open>
  Claim C4, as the code has it. A mode other than \<^verbatim>\<open>"train"\<close> and \<^verbatim>\<open>"score"\<close> takes
  the path of \<^verbatim>\<open>"train"\<close>: the user turn is recorded, the model is asked once with the
  full prompt, which names the mode, no evaluation record is appended and no report is
  made. Whenever the model gives for this prompt the outcome it gives for the prompt of
  \<^verbatim>\<open>"train"\<close>, the result and the service after the call are those of \<^verbatim>\<open>"train"\<close>.
\<close>

theorem unknown_mode_like_train:
  assumes "mode \<noteq> ''train''" and "mode \<noteq> ''score''"
    and "sid = resolve_session_id env session_id"
    and "svc2 = record_user_message svc sid message"
  shows "generate_response env svc message mode session_id
           = (case generate_content env (full_prompt svc mode (build_context svc2 sid) message) of
                Inl m \<Rightarrow> (Inl (Exception (GENERATION_ERROR @ m)), svc2)
              | Inr response_text \<Rightarrow>
                  (Inr \<lparr>resp_text = response_text, resp_session_id = sid\<rparr>,
                   append_turn svc2 sid \<lparr>role = ''assistant'', content = response_text\<rparr>))
       \<and> evaluations (snd (generate_response env svc message mode session_id))
           = evaluations (ensure_session svc sid)
       \<and> (generate_content env (full_prompt svc mode (build_context svc2 sid) message)
            = generate_content env (full_prompt svc ''train'' (build_context svc2 sid) message)
          \<longrightarrow> generate_response env svc message mode session_id
                = generate_response env svc message ''train'' session_id)"
proof -
  have p: "full_prompt svc2 mo (build_context svc2 sid) message
             = full_prompt svc mo (build_context svc2 sid) message" for mo
    by (rule full_prompt_reads) (simp add: assms(4) system_prompt_record_user_message)
  have r: "generate_response env svc message mo session_id
           = (case generate_content env (full_prompt svc mo (build_context svc2 sid) message) of
                Inl m \<Rightarrow> (Inl (Exception (GENERATION_ERROR @ m)), svc2)
              | Inr response_text \<Rightarrow>
                  (Inr \<lparr>resp_text = response_text, resp_session_id = sid\<rparr>,
                   append_turn svc2 sid \<lparr>role = ''assistant'', content = response_text\<rparr>))"
    if "mo \<noteq> ''score''" for mo
    unfolding train_like_response [OF that] Let_def assms(3) [symmetric] assms(4) [symmetric] p ..
  have e: "evaluations (snd (generate_response env svc message mode session_id))
           = evaluations (ensure_session svc sid)"
    unfolding r [OF assms(2)]
    by (simp add: assms(4) append_turn_def evaluations_record_user_message split: sum.splits)
  have t: "''train'' \<noteq> ''score''"
    by simp
  show ?thesis
    using r [OF assms(2)] r [OF t] e by simp
qed

theorem unknown_mode_like_train_witness:
  "generate_response polite_env scored_service ''Bof'' ''duel'' (Some ''s1'')
     = generate_response polite_env scored_service ''Bof'' ''train'' (Some ''s1'')
   \<and> evaluations (snd (generate_response polite_env scored_service ''Bof'' ''duel'' (Some ''s1''))) ''s1''
     = Some [record10, record10]
   \<and> fst (generate_response polite_env scored_service ''Bof'' ''duel'' (Some ''s1''))
     = Inr \<lparr>resp_text = ''Bonjour'', resp_session_id = ''s1''\<rparr>"
proof -
  have a: "''duel'' \<noteq> ''train''" and b: "''duel'' \<noteq> ''score''"
    by simp_all
  have i: "''s1'' = resolve_session_id polite_env (Some ''s1'')"
    by (simp add: resolve_session_id_def)
  have g: "generate_content polite_env p = Inr ''Bonjour''" for p
    by (simp add: polite_env_def)
  have k: "sessions scored_service ''s1'' \<noteq> None"
    by (simp add: scored_service_def)
  have e: "evaluations scored_service ''s1'' = Some [record10, record10]"
    by (simp add: scored_service_def)
  note th = unknown_mode_like_train [OF a b i refl, of scored_service "''Bof''"]
  have 1: "generate_response polite_env scored_service ''Bof'' ''duel'' (Some ''s1'')
     = generate_response polite_env scored_service ''Bof'' ''train'' (Some ''s1'')"
    by (rule th [THEN conjunct2, THEN conjunct2, rule_format]) (simp add: g)
  have 2: "evaluations (snd (generate_response polite_env scored_service ''Bof'' ''duel'' (Some ''s1''))) ''s1''
     = Some [record10, record10]"
    using th [THEN conjunct2, THEN conjunct1] by (simp add: ensure_session_known [OF k] e)
  have 3: "fst (generate_response polite_env scored_service ''Bof'' ''duel'' (Some ''s1''))
     = Inr \<lparr>resp_text = ''Bonjour'', resp_session_id = ''s1''\<rparr>"
    using th [THEN conjunct1] by (simp add: g)
  from 1 2 3 show ?thesis
    by (intro conjI)
qed

section \<open>Arguments in score mode\<close>

text \<open>
  Claim C5. In mode \<^verbatim>\<open>"score"\<close>, for a message that is not a terminal phrase, one call
  does both: when the evaluation succeeds with the record \<open>analysis\<close> and the model
  answers the full prompt with \<open>response_text\<close>, exactly that one record is appended to
  the session's evaluation list, the answer is appended as the assistant turn after the
  user turn, and the answer is returned with the session identifier. The hypothesis on
  the two dictionaries holds in every state the constructor and the two operations reach.
\<close>

theorem score_mode_evaluates_and_answers:
  assumes "lower message \<notin> set TERMINAL"
    and "sid = resolve_session_id env session_id"
    and "sessions svc sid \<noteq> None \<longrightarrow> evaluations svc sid \<noteq> None"
    and "evaluate_argument env message = Inr analysis"
    and "generate_content env
           (full_prompt svc ''score'' (build_context (record_user_message svc sid message) sid) message)
           = Inr response_text"
  shows "fst (generate_response env svc message ''score'' session_id)
           = Inr \<lparr>resp_text = response_text, resp_session_id = sid\<rparr>
       \<and> evaluations (snd (generate_response env svc message ''score'' session_id))
           = (evaluations (ensure_session svc sid))
               (sid \<mapsto> dict_get (evaluations (ensure_session svc sid)) sid [] @ [analysis])
       \<and> sessions (snd (generate_response env svc message ''score'' session_id)) sid
           = Some (dict_get (sessions svc) sid []
                   @ [\<lparr>role = ''user'', content = message\<rparr>,
                      \<lparr>role = ''assistant'', content = response_text\<rparr>])"
proof -
  define svc2 where "svc2 = record_user_message svc sid message"
  define svc3 where "svc3 = svc2\<lparr>evaluations := (evaluations svc2)
      (sid \<mapsto> dict_get (evaluations (ensure_session svc sid)) sid [] @ [analysis])\<rparr>"
  have a: "append_evaluation svc2 sid analysis = Inr svc3"
    unfolding svc2_def svc3_def
    by (rule append_evaluation_present) (rule evaluations_after_user_message [OF assms(3)])
  have p: "full_prompt svc3 ''score'' (build_context svc3 sid) message
             = full_prompt svc ''score'' (build_context (record_user_message svc sid message) sid) message"
    by (simp add: svc3_def svc2_def full_prompt_def build_context_def
          system_prompt_record_user_message)
  have r: "generate_response env svc message ''score'' session_id
             = (Inr \<lparr>resp_text = response_text, resp_session_id = sid\<rparr>,
                append_turn svc3 sid \<lparr>role = ''assistant'', content = response_text\<rparr>)"
    using assms(2,4,5) a p
    by (simp add: score_response [OF assms(1)] Let_def svc2_def)
  show ?thesis
    by (simp add: r append_turn_def svc3_def svc2_def sessions_record_user_message
          evaluations_record_user_message)
qed

theorem score_mode_evaluates_and_answers_witness:
  "fst (generate_response polite_env scored_service ''Bof'' ''score'' (Some ''s1''))
     = Inr \<lparr>resp_text = ''Bonjour'', resp_session_id = ''s1''\<rparr>
   \<and> evaluations (snd (generate_response polite_env scored_service ''Bof'' ''score'' (Some ''s1''))) ''s1''
       = Some [record10, record10, raw_record]
   \<and> sessions (snd (generate_response polite_env scored_service ''Bof'' ''score'' (Some ''s1''))) ''s1''
       = Some [\<lparr>role = ''user'', content = ''Le sport forme la jeunesse''\<rparr>,
               \<lparr>role = ''assistant'', content = ''Pourquoi ?''\<rparr>,
               \<lparr>role = ''user'', content = ''Bof''\<rparr>,
               \<lparr>role = ''assistant'', content = ''Bonjour''\<rparr>]"
proof -
  have i: "''s1'' = resolve_session_id polite_env (Some ''s1'')"
    by (simp add: resolve_session_id_def)
  have c: "sessions scored_service ''s1'' \<noteq> None \<longrightarrow> evaluations scored_service ''s1'' \<noteq> None"
    by (simp add: scored_service_def)
  have e: "evaluate_argument polite_env ''Bof'' = Inr raw_record"
    by (simp add: evaluate_argument_def polite_env_def json_loads_fragment_def raw_record_def)
  have g: "generate_content polite_env
             (full_prompt scored_service ''score''
                (build_context (record_user_message scored_service ''s1'' ''Bof'') ''s1'') ''Bof'')
             = Inr ''Bonjour''"
    by (simp add: polite_env_def)
  from score_mode_evaluates_and_answers [OF lower_bof i c e g]
  show ?thesis
    by (simp add: evaluations_ensure_session scored_service_def)
qed

section \<open>The fallback record\<close>

text \<open>
  Claim C6. When \<^verbatim>\<open>json.loads\<close> rejects the text of the model, the evaluation is the
  record \<^verbatim>\<open>{"raw": text}\<close>. It is a record of the rubric; wherever it stands in the
  evaluation list, the loops end as they end without it (same sum, same count, same
  exception if another record raises one); and the final score of a session that holds
  it is the final score without it, or the message for no score when it is alone.
\<close>

theorem fallback_record_is_neutral:
  assumes "generate_content env (evaluation_prompt message) = Inr text"
    and "json_loads env text = None"
  shows "evaluate_argument env message = Inr (PDict [(''raw'', PStr text)])
       \<and> rubric_record (PDict [(''raw'', PStr text)])
       \<and> evaluation_loop (xs @ PDict [(''raw'', PStr text)] # ys) acc = evaluation_loop (xs @ ys) acc
       \<and> generate_final_score (svc\<lparr>evaluations := (evaluations svc)(sid \<mapsto> xs @ PDict [(''raw'', PStr text)] # ys)\<rparr>) sid
           = (if xs @ ys = [] then Inr NO_SCORE
              else generate_final_score (svc\<lparr>evaluations := (evaluations svc)(sid \<mapsto> xs @ ys)\<rparr>) sid)"
proof (intro conjI)
  show "evaluate_argument env message = Inr (PDict [(''raw'', PStr text)])"
    using assms by (simp add: evaluate_argument_def)
  show "rubric_record (PDict [(''raw'', PStr text)])"
    by (rule raw_rubric)
  show skip: "evaluation_loop (xs @ PDict [(''raw'', PStr text)] # ys) acc = evaluation_loop (xs @ ys) acc"
    for acc
    by (rule evaluation_loop_skip) (rule raw_non_contributing)
  show "generate_final_score (svc\<lparr>evaluations := (evaluations svc)(sid \<mapsto> xs @ PDict [(''raw'', PStr text)] # ys)\<rparr>) sid
           = (if xs @ ys = [] then Inr NO_SCORE
              else generate_final_score (svc\<lparr>evaluations := (evaluations svc)(sid \<mapsto> xs @ ys)\<rparr>) sid)"
    by (simp add: generate_final_score_def dict_get_def skip)
qed

theorem fallback_record_is_neutral_witness:
  "evaluate_argument polite_env ''Bof'' = Inr raw_record
   \<and> evaluation_loop [record10, raw_record, record10] (0, 0) = evaluation_loop [record10, record10] (0, 0)
   \<and> generate_final_score raw_service ''s1'' = Inr NO_SCORE"
proof -
  have g: "generate_content polite_env (evaluation_prompt ''Bof'') = Inr ''Bonjour''"
    by (simp add: polite_env_def)
  have j: "json_loads polite_env ''Bonjour'' = None"
    by (simp add: polite_env_def json_loads_fragment_def)
  have s: "new_service\<lparr>evaluations := (evaluations new_service)(''s1'' \<mapsto> [] @ PDict [(''raw'', PStr ''Bonjour'')] # [])\<rparr>
            = raw_service\<lparr>sessions := Map.empty\<rparr>"
    by (simp add: new_service_def raw_service_def raw_record_def)
  have f: "generate_final_score (raw_service\<lparr>sessions := Map.empty\<rparr>) ''s1'' = generate_final_score raw_service ''s1''"
    by (simp add: generate_final_score_def)
  from fallback_record_is_neutral [OF g j, of "[record10]" "[record10]" "(0, 0)" new_service "''s1''"]
       fallback_record_is_neutral [OF g j, of "[]" "[]" "(0, 0)" new_service "''s1''"] s f
  show ?thesis
    by (simp add: raw_record_def)
qed

section \<open>Nothing to score\<close>

text \<open>
  Claim C7 promises the message of an empty session whenever nothing contributes. A
  session whose only record is a fallback record does not get it: the function has a
  second, different message for that case.
\<close>

theorem no_contribution_counterexample:
  "generate_final_score raw_service ''s1'' = Inr NO_SCORE \<and> NO_SCORE \<noteq> NO_ARGUMENT"
  by (simp add: generate_final_score_def raw_service_def raw_record_def dict_get_def criteres_def
        NO_SCORE_def NO_ARGUMENT_def)

text \<open>
  Claim C7, as the code has it. With no evaluation record (unknown session or empty
  list) the result is the message \<open>NO_ARGUMENT\<close>; with records of which none holds a
  criterion it is the other message \<open>NO_SCORE\<close>; neither message is a report with a
  score.
\<close>

theorem no_contribution_messages:
  "(dict_get (evaluations svc) sid [] = [] \<longrightarrow> generate_final_score svc sid = Inr NO_ARGUMENT)
   \<and> (dict_get (evaluations svc) sid [] \<noteq> []
        \<and> (\<forall>ev\<in>set (dict_get (evaluations svc) sid []). non_contributing ev)
      \<longrightarrow> generate_final_score svc sid = Inr NO_SCORE)
   \<and> NO_SCORE \<noteq> NO_ARGUMENT \<and> report x \<noteq> NO_ARGUMENT \<and> report x \<noteq> NO_SCORE"
  using evaluation_loop_absent [of "dict_get (evaluations svc) sid []" "(0, 0)"]
        report_not_message [of x] messages_differ
  by (auto simp: generate_final_score_def)

theorem no_contribution_messages_witness:
  "generate_final_score new_service ''s1'' = Inr NO_ARGUMENT
   \<and> generate_final_score raw_service ''s1'' = Inr NO_SCORE
   \<and> report 50 \<noteq> NO_ARGUMENT \<and> report 50 \<noteq> NO_SCORE"
proof -
  have a: "dict_get (evaluations new_service) ''s1'' [] = []"
    by (simp add: dict_get_def new_service_def)
  have b: "dict_get (evaluations raw_service) ''s1'' [] = [raw_record]"
    by (simp add: dict_get_def raw_service_def)
  have c: "non_contributing raw_record"
    by (simp add: raw_record_def non_contributing_def criteres_def)
  from no_contribution_messages [of new_service "''s1''" 50]
       no_contribution_messages [of raw_service "''s1''" 50] a b c
  show ?thesis by simp
qed

section \<open>The recent context\<close>

text \<open>
  Claim C8. The rendered context is the concatenation, in order, of one line per turn
  for the last ten turns of the history (all of them when there are fewer): these turns
  are a suffix of the history, turns appended one after the other extend the history in
  that order, and a turn is rendered with \<open>User: \<close> or \<open>Assistant: \<close> before its
  content according to its role.
\<close>

theorem recent_context_last_ten:
  "build_context svc sid = concat (map render_turn (last_turns 10 (dict_get (sessions svc) sid [])))
   \<and> length (last_turns 10 (dict_get (sessions svc) sid [])) = min 10 (length (dict_get (sessions svc) sid []))
   \<and> suffix (last_turns 10 (dict_get (sessions svc) sid [])) (dict_get (sessions svc) sid [])
   \<and> dict_get (sessions (foldl (\<lambda>s t. append_turn s sid t) svc ts)) sid []
        = dict_get (sessions svc) sid [] @ ts
   \<and> render_turn \<lparr>role = ''user'', content = c\<rparr> = ''User: '' @ c @ ''\<newline>''
   \<and> render_turn \<lparr>role = ''assistant'', content = c\<rparr> = ''Assistant: '' @ c @ ''\<newline>''"
proof (intro conjI)
  show "build_context svc sid
          = concat (map render_turn (last_turns 10 (dict_get (sessions svc) sid [])))"
    unfolding build_context_def Let_def foldl_render last_turns_drop by simp
  show "length (last_turns 10 (dict_get (sessions svc) sid []))
          = min 10 (length (dict_get (sessions svc) sid []))"
    by (simp add: last_turns_drop)
  show "suffix (last_turns 10 (dict_get (sessions svc) sid [])) (dict_get (sessions svc) sid [])"
    by (simp add: last_turns_drop suffix_drop)
  show "dict_get (sessions (foldl (\<lambda>s t. append_turn s sid t) svc ts)) sid []
          = dict_get (sessions svc) sid [] @ ts"
    by (rule append_turns_history)
qed (simp_all add: render_turn_def)

theorem recent_context_last_ten_witness:
  "build_context long_service ''s1''
     = ''Assistant: b\<newline>User: c\<newline>Assistant: d\<newline>User: e\<newline>Assistant: f\<newline>''
     @ ''User: g\<newline>Assistant: h\<newline>User: i\<newline>Assistant: j\<newline>User: k\<newline>''
   \<and> build_context new_service ''s1'' = []"
proof -
  have a: "dict_get (sessions long_service) ''s1'' [] = the (sessions long_service ''s1'')"
    by (simp add: dict_get_def long_service_def)
  have b: "dict_get (sessions new_service) ''s1'' [] = []"
    by (simp add: dict_get_def new_service_def)
  from recent_context_last_ten [of long_service "''s1''" "[]" "[]"]
       recent_context_last_ten [of new_service "''s1''" "[]" "[]"] a b
  show ?thesis
    by (simp add: long_service_def last_turns_def render_turn_def)
qed

section \<open>Clearing a session\<close>

text \<open>
  Claim C9. \<^verbatim>\<open>clear_session\<close> removes the entry of the identifier from both
  dictionaries and touches nothing else; for an identifier that is in neither it changes
  nothing (and, being a total function, raises nothing). Afterwards the identifier is as
  one never seen: its context is empty, its final score is the message of an empty
  session, and a call of \<^verbatim>\<open>generate_response\<close> with it ends as the same call does on
  any service that never saw the identifier, with the same result and the same turns
  and evaluation records for it.
\<close>

theorem clear_session_forgets:
  "sessions (clear_session svc sid) sid = None
   \<and> evaluations (clear_session svc sid) sid = None
   \<and> (sessions svc sid = None \<and> evaluations svc sid = None \<longrightarrow> clear_session svc sid = svc)
   \<and> (sid' \<noteq> sid \<longrightarrow> sessions (clear_session svc sid) sid' = sessions svc sid'
                       \<and> evaluations (clear_session svc sid) sid' = evaluations svc sid')
   \<and> system_prompt (clear_session svc sid) = system_prompt svc
   \<and> build_context (clear_session svc sid) sid = []
   \<and> generate_final_score (clear_session svc sid) sid = Inr NO_ARGUMENT
   \<and> (sid \<noteq> [] \<and> sessions unseen sid = None \<and> evaluations unseen sid = None
        \<and> system_prompt unseen = system_prompt svc
      \<longrightarrow> fst (generate_response env (clear_session svc sid) message mode (Some sid))
            = fst (generate_response env unseen message mode (Some sid))
          \<and> same_session sid
               (snd (generate_response env (clear_session svc sid) message mode (Some sid)))
               (snd (generate_response env unseen message mode (Some sid))))"
proof (intro conjI impI)
  assume a: "sid \<noteq> [] \<and> sessions unseen sid = None \<and> evaluations unseen sid = None
        \<and> system_prompt unseen = system_prompt svc"
  then have i: "resolve_session_id env (Some sid) = sid"
    by (simp add: resolve_session_id_def)
  from a have "same_session (resolve_session_id env (Some sid)) (clear_session svc sid) unseen"
    unfolding i by (intro same_session_clear) simp_all
  from same_session_generate_response [OF this, of message mode]
  show "fst (generate_response env (clear_session svc sid) message mode (Some sid))
            = fst (generate_response env unseen message mode (Some sid))"
    and "same_session sid
               (snd (generate_response env (clear_session svc sid) message mode (Some sid)))
               (snd (generate_response env unseen message mode (Some sid)))"
    unfolding i by simp_all
next
  assume "sessions svc sid = None \<and> evaluations svc sid = None"
  then show "clear_session svc sid = svc"
    by (simp add: clear_session_unknown)
qed (simp_all add: clear_session_def build_context_def generate_final_score_def)

theorem clear_session_forgets_witness:
  "sessions (clear_session scored_service ''s1'') ''s1'' = None
   \<and> evaluations (clear_session scored_service ''s1'') ''s1'' = None
   \<and> clear_session new_service ''s1'' = new_service
   \<and> fst (generate_response failing_env (clear_session scored_service ''s1'') ''Fin'' ''score'' (Some ''s1''))
     = Inr \<lparr>resp_text = NO_ARGUMENT, resp_session_id = ''s1''\<rparr>
   \<and> sessions (snd (generate_response failing_env (clear_session scored_service ''s1'') ''Fin'' ''score'' (Some ''s1''))) ''s1''
     = Some [\<lparr>role = ''user'', content = ''Fin''\<rparr>, \<lparr>role = ''assistant'', content = NO_ARGUMENT\<rparr>]"
proof -
  note th = clear_session_forgets [of scored_service "''s1''" "''s2''" new_service failing_env "''Fin''" "''score''"]
  note tn = clear_session_forgets [of new_service "''s1''" "''s2''" new_service failing_env "''Fin''" "''score''"]
  have n: "sessions new_service ''s1'' = None \<and> evaluations new_service ''s1'' = None"
    by (simp add: new_service_def)
  have p: "''s1'' \<noteq> [] \<and> sessions new_service ''s1'' = None \<and> evaluations new_service ''s1'' = None
        \<and> system_prompt new_service = system_prompt scored_service"
    by (simp add: new_service_def scored_service_def)
  have f: "generate_response failing_env new_service ''Fin'' ''score'' (Some ''s1'')
             = (Inr \<lparr>resp_text = NO_ARGUMENT, resp_session_id = ''s1''\<rparr>,
                append_turn (record_user_message new_service ''s1'' ''Fin'') ''s1''
                  \<lparr>role = ''assistant'', content = NO_ARGUMENT\<rparr>)"
    by (simp add: terminal_response [OF lower_fin] Let_def resolve_session_id_def
          generate_final_score_def evaluations_record_user_message evaluations_ensure_session
          new_service_def)
  have s: "sessions (append_turn (record_user_message new_service ''s1'' ''Fin'') ''s1''
                  \<lparr>role = ''assistant'', content = NO_ARGUMENT\<rparr>) ''s1''
           = Some [\<lparr>role = ''user'', content = ''Fin''\<rparr>, \<lparr>role = ''assistant'', content = NO_ARGUMENT\<rparr>]"
    by (simp add: append_turn_def sessions_record_user_message new_service_def)
  from th [THEN conjunct2, THEN conjunct2, THEN conjunct2, THEN conjunct2, THEN conjunct2,
           THEN conjunct2, THEN conjunct2, rule_format, OF p]
  have "fst (generate_response failing_env (clear_session scored_service ''s1'') ''Fin'' ''score'' (Some ''s1''))
            = fst (generate_response failing_env new_service ''Fin'' ''score'' (Some ''s1''))"
    and "sessions (snd (generate_response failing_env (clear_session scored_service ''s1'') ''Fin'' ''score'' (Some ''s1''))) ''s1''
            = sessions (snd (generate_response failing_env new_service ''Fin'' ''score'' (Some ''s1''))) ''s1''"
    by (simp_all add: same_session_def)
  with f s th [THEN conjunct1] th [THEN conjunct2, THEN conjunct1]
       tn [THEN conjunct2, THEN conjunct2, THEN conjunct1, rule_format, OF n]
  show ?thesis
    by simp
qed

section \<open>The report reads, it does not write\<close>

text \<open>
  Claim C10. \<^verbatim>\<open>_generate_final_score\<close> returns a string and no service: it can only
  read. Two terminal phrases sent one after the other to the same session in mode
  \<^verbatim>\<open>"score"\<close>: the first call leaves both evaluation dictionaries as the creation of
  the session left them, the second leaves them as the first did (so the records of a
  known session are all still there), and the second call ends as the first did, with
  the same report, computed from the same records.
\<close>

theorem report_leaves_evaluations:
  assumes "lower message \<in> set TERMINAL"
    and "lower message' \<in> set TERMINAL"
    and "sid \<noteq> []"
    and "r1 = generate_response env svc message ''score'' (Some sid)"
    and "r2 = generate_response env' (snd r1) message' ''score'' (Some sid)"
  shows "evaluations (snd r1) = evaluations (ensure_session svc sid)
       \<and> evaluations (snd r2) = evaluations (snd r1)
       \<and> (sessions svc sid \<noteq> None \<longrightarrow> evaluations (snd r2) = evaluations svc)
       \<and> fst r2 = fst r1
       \<and> fst r1 = map_sum id (\<lambda>final_report. \<lparr>resp_text = final_report, resp_session_id = sid\<rparr>)
                     (generate_final_score (ensure_session svc sid) sid)"
proof -
  from assms(3) have i: "resolve_session_id env (Some sid) = sid"
    "resolve_session_id env' (Some sid) = sid"
    by (simp_all add: resolve_session_id_def)
  have e1: "evaluations (snd r1) = evaluations (ensure_session svc sid)"
    using evaluations_after_terminal [OF assms(1), of env svc "Some sid"] i assms(4) by simp
  have s1: "sessions (snd r1) sid \<noteq> None"
    using sessions_after_terminal [OF assms(1), of env svc "Some sid"] i assms(4) by simp
  then have n: "ensure_session (snd r1) sid = snd r1"
    by (rule ensure_session_known)
  have e2: "evaluations (snd r2) = evaluations (snd r1)"
    using evaluations_after_terminal [OF assms(2), of env' "snd r1" "Some sid"] i assms(5) n
    by simp
  have f1: "fst r1 = map_sum id (\<lambda>final_report. \<lparr>resp_text = final_report, resp_session_id = sid\<rparr>)
                     (generate_final_score (ensure_session svc sid) sid)"
    using fst_terminal [OF assms(1), of env svc "Some sid"] i assms(4) by simp
  have f2: "fst r2 = map_sum id (\<lambda>final_report. \<lparr>resp_text = final_report, resp_session_id = sid\<rparr>)
                     (generate_final_score (snd r1) sid)"
    using fst_terminal [OF assms(2), of env' "snd r1" "Some sid"] i assms(5) n by simp
  have "generate_final_score (snd r1) sid = generate_final_score (ensure_session svc sid) sid"
    by (rule generate_final_score_reads) (simp add: e1)
  with f1 f2 have "fst r2 = fst r1"
    by simp
  moreover have "sessions svc sid \<noteq> None \<longrightarrow> evaluations (snd r2) = evaluations svc"
    using e1 e2 by (simp add: ensure_session_def)
  ultimately show ?thesis
    using e1 e2 f1 by simp
qed

theorem report_leaves_evaluations_witness:
  "fst (generate_response polite_env
          (snd (generate_response failing_env scored_service ''Fin'' ''score'' (Some ''s1'')))
          ''SCORE'' ''score'' (Some ''s1''))
     = Inr \<lparr>resp_text = report 50, resp_session_id = ''s1''\<rparr>
   \<and> evaluations (snd (generate_response polite_env
          (snd (generate_response failing_env scored_service ''Fin'' ''score'' (Some ''s1'')))
          ''SCORE'' ''score'' (Some ''s1''))) ''s1''
     = Some [record10, record10]"
proof -
  have n: "''s1'' \<noteq> []"
    by simp
  have k: "sessions scored_service ''s1'' \<noteq> None"
    by (simp add: scored_service_def)
  then have u: "ensure_session scored_service ''s1'' = scored_service"
    by (rule ensure_session_known)
  have r: "\<forall>ev\<in>set [record10, record10]. rubric_record ev"
    by (simp add: rubric_record_def record10_def criteres_def)
  have d: "dict_get (evaluations scored_service) ''s1'' [] = [record10, record10]"
    by (simp add: scored_service_def)
  have c: "spec_count [record10, record10] = 10" "spec_sum [record10, record10] = 100"
    by (simp_all add: spec_count_def spec_sum_def contributions_def record10_def criteres_def)
  have f: "generate_final_score scored_service ''s1'' = Inr (report 50)"
    using rubric_final_score [OF r d] c spec_score_half by simp
  from report_leaves_evaluations [OF lower_fin lower_score n refl refl,
         of failing_env scored_service polite_env] k u f
  show ?thesis
    by (simp add: scored_service_def)
qed

end
